theory Spec2Isabelle
  imports Main "HOL-Library.Word" "HOL-Library.Sublist"
begin

section \<open>Go values used by the package\<close>

text \<open>
  Sizes are Go \<open>int64\<close>: 64-bit words whose addition wraps and whose comparisons are
  signed. A Go \<open>int\<close> (the byte count an \<open>io.Writer\<close> reports) is modelled by the
  integer it holds, and the conversion \<open>int64(n)\<close> by \<open>of_int\<close>.
\<close>

type_synonym int64 = "64 word"
type_synonym byte = "8 word"
type_synonym FileMode = "32 word"

text \<open>
  Errors are values. \<open>ErrNotEnoughCapacity\<close> is the package's sentinel,
  \<open>Errorf\<close> a \<open>fmt.Errorf\<close> with a fixed message, \<open>ErrorfW e x y\<close> the
  wrapping \<open>fmt.Errorf("%w: %d > %d", e, x, y)\<close>; \<open>ErrUnexpectedEOF\<close> is the
  \<open>io\<close> error the package's tests inject, and \<open>OsError\<close> stands for whatever
  else a wrapped filesystem returns.
\<close>

datatype error =
    ErrNotEnoughCapacity
  | Errorf string
  | ErrorfW error int64 int64
  | ErrUnexpectedEOF
  | OsError string


record FileInfo =
  Size :: int64
  IsDir :: bool

section \<open>The wrapped filesystem\<close>

text \<open>
  \<open>afero.File\<close> and \<open>afero.Fs\<close> are interfaces of a library the package decorates.
  An object of an interface type is a record of its methods; a method that mutates
  takes the state \<open>'s\<close> of the wrapped filesystem and returns it updated, result first
  as in Go.
  \<open>Stat\<close> and the walk are queries: they read the state and leave it as it is.
  \<open>Fs_Walk root s\<close> is the sequence of arguments \<open>(path, info, err)\<close> with which
  \<open>afero.Walk\<close> calls its callback from \<open>root\<close>: the path with \<open>Inl err\<close> for a
  call with an error and with \<open>Inr info\<close> for an entry.
\<close>

record 's afero_File =
  File_Write :: "byte list \<Rightarrow> 's \<Rightarrow> (int \<times> error option) \<times> 's"
  File_WriteAt :: "byte list \<Rightarrow> int64 \<Rightarrow> 's \<Rightarrow> (int \<times> error option) \<times> 's"
  File_Truncate :: "int64 \<Rightarrow> 's \<Rightarrow> error option \<times> 's"

record 's afero_Fs =
  Fs_Stat :: "string \<Rightarrow> 's \<Rightarrow> error + FileInfo"
  Fs_Walk :: "string \<Rightarrow> 's \<Rightarrow> (string \<times> (error + FileInfo)) list"
  Fs_Create :: "string \<Rightarrow> 's \<Rightarrow> (error + 's afero_File) \<times> 's"
  Fs_Open :: "string \<Rightarrow> 's \<Rightarrow> (error + 's afero_File) \<times> 's"
  Fs_OpenFile :: "string \<Rightarrow> int \<Rightarrow> FileMode \<Rightarrow> 's \<Rightarrow> (error + 's afero_File) \<times> 's"
  Fs_Mkdir :: "string \<Rightarrow> FileMode \<Rightarrow> 's \<Rightarrow> error option \<times> 's"
  Fs_Remove :: "string \<Rightarrow> 's \<Rightarrow> error option \<times> 's"
  Fs_RemoveAll :: "string \<Rightarrow> 's \<Rightarrow> error option \<times> 's"

text \<open>
  \<open>afero.NewBasePathFs(f, base)\<close> is \<open>f\<close> seen from \<open>base\<close>: every path is joined
  to \<open>base\<close> before \<open>f\<close> receives it.
\<close>

definition RealPath :: "string \<Rightarrow> string \<Rightarrow> string" where
  "RealPath base name = (if name = [] then base else base @ ''/'' @ name)"

definition NewBasePathFs :: "'s afero_Fs \<Rightarrow> string \<Rightarrow> 's afero_Fs" where
  "NewBasePathFs f base =
     \<lparr>Fs_Stat = (\<lambda>name. Fs_Stat f (RealPath base name)),
      Fs_Walk = (\<lambda>root. Fs_Walk f (RealPath base root)),
      Fs_Create = (\<lambda>name. Fs_Create f (RealPath base name)),
      Fs_Open = (\<lambda>name. Fs_Open f (RealPath base name)),
      Fs_OpenFile = (\<lambda>name. Fs_OpenFile f (RealPath base name)),
      Fs_Mkdir = (\<lambda>name. Fs_Mkdir f (RealPath base name)),
      Fs_Remove = (\<lambda>name. Fs_Remove f (RealPath base name)),
      Fs_RemoveAll = (\<lambda>name. Fs_RemoveAll f (RealPath base name))\<rparr>"

section \<open>file.go: the capacity-limited file handle\<close>

text \<open>
  \<open>fileSize\<close> embeds an \<open>afero.File\<close> and holds two closures. The closures and the
  file act on a world \<open>'w\<close>: the owning \<open>capacityFs\<close> for a handle the filesystem
  returns, the test's local variables in \<open>file_test.go\<close>.
\<close>

record 'w fileSize =
  File :: "'w afero_File"
  f_hasEnoughCapacity :: "int64 \<Rightarrow> 'w \<Rightarrow> bool"
  f_addCapacity :: "int64 \<Rightarrow> 'w \<Rightarrow> 'w"

definition Write :: "'w fileSize \<Rightarrow> byte list \<Rightarrow> 'w \<Rightarrow> (int \<times> error option) \<times> 'w" where
  "Write f p w =
     (if \<not> f_hasEnoughCapacity f (of_nat (length p)) w
      then ((0, Some ErrNotEnoughCapacity), w)
      else (case File_Write (File f) p w of
              ((n, err), w') \<Rightarrow> ((n, err), f_addCapacity f (of_int n) w')))"

definition WriteAt ::
  "'w fileSize \<Rightarrow> byte list \<Rightarrow> int64 \<Rightarrow> 'w \<Rightarrow> (int \<times> error option) \<times> 'w" where
  "WriteAt f p off w =
     (if \<not> f_hasEnoughCapacity f (of_nat (length p)) w
      then ((0, Some ErrNotEnoughCapacity), w)
      else (case File_WriteAt (File f) p off w of
              ((n, err), w') \<Rightarrow> ((n, err), f_addCapacity f (of_int n) w')))"

definition Truncate :: "'w fileSize \<Rightarrow> int64 \<Rightarrow> 'w \<Rightarrow> error option \<times> 'w" where
  "Truncate f sz w =
     (case File_Truncate (File f) sz w of
        (Some err, w') \<Rightarrow> (Some err, w')
      | (None, w') \<Rightarrow> (None, f_addCapacity f (sz * - 1) w'))"

section \<open>The capacity-limited filesystem\<close>

subsection \<open>The size scanner\<close>

text \<open>
  The callback of \<open>CalculateSizeSum\<close> returns the error it is handed, which ends the
  walk, and otherwise adds the entry's size. The function returns the running sum with
  the walk's error, as \<open>TestCalculateFsSize\<close> observes it.
\<close>

fun walkFn :: "(string \<times> (error + FileInfo)) list \<Rightarrow> int64 \<Rightarrow> int64 \<times> error option" where
  "walkFn [] sz = (sz, None)"
| "walkFn ((path, Inl err) # rest) sz = (sz, Some err)"
| "walkFn ((path, Inr info) # rest) sz = walkFn rest (sz + Size info)"

definition CalculateSizeSum :: "'s afero_Fs \<Rightarrow> 's \<Rightarrow> int64 \<times> error option" where
  "CalculateSizeSum f s = walkFn (Fs_Walk f [] s) 0"

subsection \<open>The budget\<close>

text \<open>
  The struct holds the wrapped filesystem by reference; here \<open>Fs\<close> is its method
  table and \<open>store\<close> the state those methods act on. The mutex has no sequential
  content.
\<close>

record 's capacityFs =
  Fs :: "'s afero_Fs"
  store :: 's
  limitedSize :: int64
  cachedSize :: int64

definition hasEnoughCapacity :: "'s capacityFs \<Rightarrow> int64 \<Rightarrow> bool" where
  "hasEnoughCapacity a sz = (sz + cachedSize a \<le>s limitedSize a)"

definition addCapacity :: "'s capacityFs \<Rightarrow> int64 \<Rightarrow> 's capacityFs" where
  "addCapacity a sz = a\<lparr>cachedSize := cachedSize a + sz\<rparr>"

text \<open>A call \<open>a.Fs.M(...)\<close> of a mutating method runs on the store the struct refers to.\<close>

definition onStore :: "('s \<Rightarrow> 'r \<times> 's) \<Rightarrow> 's capacityFs \<Rightarrow> 'r \<times> 's capacityFs" where
  "onStore m a = (case m (store a) of (r, s') \<Rightarrow> (r, a\<lparr>store := s'\<rparr>))"

definition statAndCheckSize :: "'s capacityFs \<Rightarrow> string \<Rightarrow> error option \<times> 's capacityFs" where
  "statAndCheckSize a name =
     (case Fs_Stat (Fs a) name (store a) of
        Inr stat \<Rightarrow>
          (let sz = Size stat in
           if \<not> hasEnoughCapacity a sz then (Some ErrNotEnoughCapacity, a)
           else (None, addCapacity a sz))
      | Inl err \<Rightarrow> (None, a))"

text \<open>
  \<open>deferError\<close> removes the name when it is handed an error. One copy of the source
  calls it from \<open>Create\<close> and \<open>Mkdir\<close> under \<open>err != nil\<close>, the other calls
  \<open>a.Fs.Remove(name)\<close> there directly; the two do the same.
\<close>

definition deferError :: "'s capacityFs \<Rightarrow> string \<Rightarrow> error option \<Rightarrow> 's capacityFs" where
  "deferError a name err =
     (case err of
        Some e \<Rightarrow> snd (onStore (Fs_Remove (Fs a) name) a)
      | None \<Rightarrow> a)"

text \<open>
  The composite literal \<open>&fileSize{fi, a.hasEnoughCapacity, a.addCapacity}\<close>: the
  wrapped file acts on the store of \<open>a\<close>, the closures on its budget.
\<close>

definition liftFile :: "'s afero_File \<Rightarrow> 's capacityFs afero_File" where
  "liftFile fi =
     \<lparr>File_Write = (\<lambda>p. onStore (File_Write fi p)),
      File_WriteAt = (\<lambda>p off. onStore (File_WriteAt fi p off)),
      File_Truncate = (\<lambda>sz. onStore (File_Truncate fi sz))\<rparr>"

definition newFileSize :: "'s afero_File \<Rightarrow> 's capacityFs fileSize" where
  "newFileSize fi =
     \<lparr>File = liftFile fi,
      f_hasEnoughCapacity = (\<lambda>i a. hasEnoughCapacity a i),
      f_addCapacity = (\<lambda>i a. addCapacity a i)\<rparr>"

subsection \<open>Create and Mkdir\<close>

text \<open>
  Go's \<open>(afero.File, error)\<close> result is a pair of options: \<open>Create\<close> returns the
  wrapper together with the error when the capacity check fails.
\<close>

definition Create ::
  "'s capacityFs \<Rightarrow> string \<Rightarrow> ('s capacityFs fileSize option \<times> error option) \<times> 's capacityFs" where
  "Create a name =
     (case onStore (Fs_Create (Fs a) name) a of
        (Inl err, a1) \<Rightarrow> ((None, Some err), a1)
      | (Inr fi, a1) \<Rightarrow>
          (case statAndCheckSize a1 name of
             (Some err, a2) \<Rightarrow>
               (case onStore (Fs_Remove (Fs a2) name) a2 of
                  (r, a3) \<Rightarrow> ((Some (newFileSize fi), Some err), a3))
           | (None, a2) \<Rightarrow> ((Some (newFileSize fi), None), a2)))"

definition Mkdir :: "'s capacityFs \<Rightarrow> string \<Rightarrow> FileMode \<Rightarrow> error option \<times> 's capacityFs" where
  "Mkdir a name perm =
     (case onStore (Fs_Mkdir (Fs a) name perm) a of
        (Some err, a1) \<Rightarrow> (Some err, a1)
      | (None, a1) \<Rightarrow>
          (case statAndCheckSize a1 name of
             (Some err, a2) \<Rightarrow>
               (case onStore (Fs_Remove (Fs a2) name) a2 of (r, a3) \<Rightarrow> (Some err, a3))
           | (None, a2) \<Rightarrow> (None, a2)))"

subsection \<open>MkdirAll\<close>

text \<open>
  \<open>strings.Join\<close>, and \<open>strings.Split\<close> for the one-byte separator the package
  passes.
\<close>

fun Join :: "string list \<Rightarrow> string \<Rightarrow> string" where
  "Join [] sep = []"
| "Join [x] sep = x"
| "Join (x # y # ys) sep = x @ sep @ Join (y # ys) sep"

fun Split :: "string \<Rightarrow> char \<Rightarrow> string list" where
  "Split [] c = [[]]"
| "Split (x # xs) c =
     (if x = c then [] # Split xs c
      else (case Split xs c of
              [] \<Rightarrow> [[x]]
            | y # ys \<Rightarrow> (x # y) # ys))"

definition possibleCombinations :: "string list \<Rightarrow> string list" where
  "possibleCombinations str =
     foldl (\<lambda>ret k. ret @ [Join (take (k + 1) str) ''/'']) [] [0..<length str]"

fun MkdirAll_loop ::
  "string list \<Rightarrow> FileMode \<Rightarrow> 's capacityFs \<Rightarrow> error option \<times> 's capacityFs" where
  "MkdirAll_loop [] perm a = (None, a)"
| "MkdirAll_loop (v # vs) perm a =
     (case Fs_Stat (Fs a) v (store a) of
        Inr info \<Rightarrow> MkdirAll_loop vs perm a
      | Inl err0 \<Rightarrow>
          (case Mkdir a v perm of
             (Some err, a') \<Rightarrow> (Some err, a')
           | (None, a') \<Rightarrow> MkdirAll_loop vs perm a'))"

definition MkdirAll :: "'s capacityFs \<Rightarrow> string \<Rightarrow> FileMode \<Rightarrow> error option \<times> 's capacityFs" where
  "MkdirAll a name perm = MkdirAll_loop (possibleCombinations (Split name CHR ''/'')) perm a"

subsection \<open>Open and OpenFile\<close>

definition Open ::
  "'s capacityFs \<Rightarrow> string \<Rightarrow> ('s capacityFs fileSize option \<times> error option) \<times> 's capacityFs" where
  "Open a name =
     (case onStore (Fs_Open (Fs a) name) a of
        (Inl err, a1) \<Rightarrow> ((None, Some err), a1)
      | (Inr fi, a1) \<Rightarrow> ((Some (newFileSize fi), None), a1))"

definition OpenFile ::
  "'s capacityFs \<Rightarrow> string \<Rightarrow> int \<Rightarrow> FileMode \<Rightarrow>
     ('s capacityFs fileSize option \<times> error option) \<times> 's capacityFs" where
  "OpenFile a name flag perm =
     (case onStore (Fs_OpenFile (Fs a) name flag perm) a of
        (Inl err, a1) \<Rightarrow> ((None, Some err), a1)
      | (Inr fi, a1) \<Rightarrow> ((Some (newFileSize fi), None), a1))"

subsection \<open>Remove and RemoveAll\<close>

definition beforeRemove :: "'s capacityFs \<Rightarrow> string \<Rightarrow> int64 \<times> error option" where
  "beforeRemove a name =
     (case Fs_Stat (Fs a) name (store a) of
        Inr stat \<Rightarrow>
          (if IsDir stat
           then (case CalculateSizeSum (NewBasePathFs (Fs a) name) (store a) of
                   (sz, Some err) \<Rightarrow> (sz, Some err)
                 | (sz, None) \<Rightarrow> (sz, None))
           else (Size stat, None))
      | Inl err0 \<Rightarrow> (0, None))"

definition Remove :: "'s capacityFs \<Rightarrow> string \<Rightarrow> error option \<times> 's capacityFs" where
  "Remove a name =
     (case beforeRemove a name of
        (sz, Some err) \<Rightarrow> (Some err, a)
      | (sz, None) \<Rightarrow>
          (case onStore (Fs_Remove (Fs a) name) a of
             (Some err, a1) \<Rightarrow> (Some err, a1)
           | (None, a1) \<Rightarrow> (None, addCapacity a1 (sz * - 1))))"

definition RemoveAll :: "'s capacityFs \<Rightarrow> string \<Rightarrow> error option \<times> 's capacityFs" where
  "RemoveAll a name =
     (case beforeRemove a name of
        (sz, Some err) \<Rightarrow> (Some err, a)
      | (sz, None) \<Rightarrow>
          (case onStore (Fs_RemoveAll (Fs a) name) a of
             (Some err, a1) \<Rightarrow> (Some err, a1)
           | (None, a1) \<Rightarrow> (None, addCapacity a1 (sz * - 1))))"

subsection \<open>The constructor\<close>

text \<open>
  The argument \<open>f\<close> is of interface type: \<open>None\<close> when it is \<open>nil\<close>, and
  otherwise the method table with the state it refers to.
\<close>

definition NewCapacityFs :: "('s afero_Fs \<times> 's) option \<Rightarrow> int64 \<Rightarrow> error + 's capacityFs" where
  "NewCapacityFs f sz =
     (case f of
        None \<Rightarrow> Inl (Errorf ''nil interface'')
      | Some (ops, s) \<Rightarrow>
          if sz <s 0 then Inl (Errorf ''size less than 0'')
          else (case CalculateSizeSum ops s of
                  (cached, Some err) \<Rightarrow> Inl err
                | (cached, None) \<Rightarrow>
                    if sz <s cached then Inl (ErrorfW ErrNotEnoughCapacity cached sz)
                    else Inr \<lparr>Fs = ops, store = s, limitedSize = sz, cachedSize = cached\<rparr>))"

section \<open>Sequences of operations\<close>

text \<open>
  A caller's program: operations in order, file handles named by the position at which
  they were opened. The run stops at the first operation that returns an error.
\<close>

datatype op =
    OpCreate string
  | OpMkdir string FileMode
  | OpMkdirAll string FileMode
  | OpOpen string
  | OpOpenFile string int FileMode
  | OpWrite nat "byte list"
  | OpWriteAt nat "byte list" int64
  | OpTruncate nat int64
  | OpRemove string
  | OpRemoveAll string

record 's session =
  fsys :: "'s capacityFs"
  handles :: "'s capacityFs fileSize list"

definition opened ::
  "('s capacityFs fileSize option \<times> error option) \<times> 's capacityFs \<Rightarrow> 's session \<Rightarrow>
     error option \<times> 's session" where
  "opened r t =
     (case r of
        ((Some f, None), a') \<Rightarrow> (None, \<lparr>fsys = a', handles = handles t @ [f]\<rparr>)
      | ((fo, Some err), a') \<Rightarrow> (Some err, t\<lparr>fsys := a'\<rparr>)
      | ((None, None), a') \<Rightarrow> (None, t\<lparr>fsys := a'\<rparr>))"

definition onFs :: "error option \<times> 's capacityFs \<Rightarrow> 's session \<Rightarrow> error option \<times> 's session" where
  "onFs r t = (case r of (err, a') \<Rightarrow> (err, t\<lparr>fsys := a'\<rparr>))"

definition onHandle ::
  "nat \<Rightarrow> ('s capacityFs fileSize \<Rightarrow> 's capacityFs \<Rightarrow> error option \<times> 's capacityFs) \<Rightarrow>
     's session \<Rightarrow> error option \<times> 's session" where
  "onHandle k m t =
     (if k < length (handles t) then onFs (m (handles t ! k) (fsys t)) t
      else (Some (OsError ''file already closed''), t))"

fun step :: "op \<Rightarrow> 's session \<Rightarrow> error option \<times> 's session" where
  "step (OpCreate name) t = opened (Create (fsys t) name) t"
| "step (OpOpen name) t = opened (Open (fsys t) name) t"
| "step (OpOpenFile name flag perm) t = opened (OpenFile (fsys t) name flag perm) t"
| "step (OpMkdir name perm) t = onFs (Mkdir (fsys t) name perm) t"
| "step (OpMkdirAll name perm) t = onFs (MkdirAll (fsys t) name perm) t"
| "step (OpWrite k p) t =
     onHandle k (\<lambda>f a. case Write f p a of ((n, err), a') \<Rightarrow> (err, a')) t"
| "step (OpWriteAt k p off) t =
     onHandle k (\<lambda>f a. case WriteAt f p off a of ((n, err), a') \<Rightarrow> (err, a')) t"
| "step (OpTruncate k sz) t = onHandle k (\<lambda>f a. Truncate f sz a) t"
| "step (OpRemove name) t = onFs (Remove (fsys t) name) t"
| "step (OpRemoveAll name) t = onFs (RemoveAll (fsys t) name) t"

fun run :: "op list \<Rightarrow> 's session \<Rightarrow> error option \<times> 's session" where
  "run [] t = (None, t)"
| "run (x # xs) t =
     (case step x t of
        (Some err, t') \<Rightarrow> (Some err, t')
      | (None, t') \<Rightarrow> run xs t')"


section \<open>A reference store\<close>

text \<open>
  An in-memory filesystem to run the package on: a table from paths to nodes, the root
  under the empty path. As in afero's \<open>MemMapFs\<close>, a file's size is the length of its
  data and a directory's size is 42. An entry is made only inside an existing directory
  and a directory is removed only when empty, so every entry of the table is reached by
  the walk from the root. File handles write at the end of the file.
\<close>

datatype node = DirNode | FileNode "byte list"

type_synonym memfs = "(string \<times> node) list"

definition mem_info :: "node \<Rightarrow> FileInfo" where
  "mem_info n =
     (case n of
        DirNode \<Rightarrow> \<lparr>Size = 42, IsDir = True\<rparr>
      | FileNode d \<Rightarrow> \<lparr>Size = of_nat (length d), IsDir = False\<rparr>)"

definition ErrNotExist :: error where
  "ErrNotExist = OsError ''file does not exist''"

definition under :: "string \<Rightarrow> string \<Rightarrow> bool" where
  "under root p = (root = [] \<or> p = root \<or> prefix (root @ ''/'') p)"

definition mem_parent :: "string \<Rightarrow> string" where
  "mem_parent name = Join (butlast (Split name CHR ''/'')) ''/''"

definition mem_in_dir :: "string \<Rightarrow> memfs \<Rightarrow> bool" where
  "mem_in_dir name s = (map_of s (mem_parent name) = Some DirNode)"

definition mem_put :: "string \<Rightarrow> node \<Rightarrow> memfs \<Rightarrow> memfs" where
  "mem_put name n s =
     (if map_of s name = None then s @ [(name, n)]
      else map (\<lambda>(p, m). if p = name then (p, n) else (p, m)) s)"

definition mem_Stat :: "string \<Rightarrow> memfs \<Rightarrow> error + FileInfo" where
  "mem_Stat name s =
     (case map_of s name of None \<Rightarrow> Inl ErrNotExist | Some n \<Rightarrow> Inr (mem_info n))"

definition mem_Walk :: "string \<Rightarrow> memfs \<Rightarrow> (string \<times> (error + FileInfo)) list" where
  "mem_Walk root s =
     (case map_of s root of
        None \<Rightarrow> [(root, Inl ErrNotExist)]
      | Some n \<Rightarrow> map (\<lambda>(p, m). (p, Inr (mem_info m))) (filter (\<lambda>(p, m). under root p) s))"

definition mem_write :: "string \<Rightarrow> byte list \<Rightarrow> memfs \<Rightarrow> (int \<times> error option) \<times> memfs" where
  "mem_write name p s =
     (case map_of s name of
        Some (FileNode d) \<Rightarrow> ((int (length p), None), mem_put name (FileNode (d @ p)) s)
      | other \<Rightarrow> ((0, Some ErrNotExist), s))"

definition mem_writeAt ::
  "string \<Rightarrow> byte list \<Rightarrow> int64 \<Rightarrow> memfs \<Rightarrow> (int \<times> error option) \<times> memfs" where
  "mem_writeAt name p off s =
     (case map_of s name of
        Some (FileNode d) \<Rightarrow>
          (if off <s 0 then ((0, Some (OsError ''negative offset'')), s)
           else (let k = unat off; d0 = d @ replicate (k - length d) 0
                 in ((int (length p), None),
                     mem_put name (FileNode (take k d0 @ p @ drop (k + length p) d0)) s)))
      | other \<Rightarrow> ((0, Some ErrNotExist), s))"

definition mem_truncate :: "string \<Rightarrow> int64 \<Rightarrow> memfs \<Rightarrow> error option \<times> memfs" where
  "mem_truncate name sz s =
     (case map_of s name of
        Some (FileNode d) \<Rightarrow>
          (if sz <s 0 then (Some (OsError ''out of range''), s)
           else (let k = unat sz
                 in (None, mem_put name (FileNode (take k (d @ replicate (k - length d) 0))) s)))
      | other \<Rightarrow> (Some ErrNotExist, s))"

definition mem_file :: "string \<Rightarrow> memfs afero_File" where
  "mem_file name =
     \<lparr>File_Write = mem_write name,
      File_WriteAt = mem_writeAt name,
      File_Truncate = mem_truncate name\<rparr>"

definition mem_Create :: "string \<Rightarrow> memfs \<Rightarrow> (error + memfs afero_File) \<times> memfs" where
  "mem_Create name s =
     (if map_of s name = Some DirNode then (Inl (OsError ''is a directory''), s)
      else if \<not> mem_in_dir name s then (Inl ErrNotExist, s)
      else (Inr (mem_file name), mem_put name (FileNode []) s))"

definition mem_Open :: "string \<Rightarrow> memfs \<Rightarrow> (error + memfs afero_File) \<times> memfs" where
  "mem_Open name s =
     (case map_of s name of
        None \<Rightarrow> (Inl ErrNotExist, s)
      | Some n \<Rightarrow> (Inr (mem_file name), s))"

text \<open>
  Of the flags of \<open>OpenFile\<close> the store reads \<open>O_CREATE\<close> (0x40) and \<open>O_TRUNC\<close>
  (0x200).
\<close>

definition mem_OpenFile ::
  "string \<Rightarrow> int \<Rightarrow> FileMode \<Rightarrow> memfs \<Rightarrow> (error + memfs afero_File) \<times> memfs" where
  "mem_OpenFile name flag perm s =
     (case map_of s name of
        None \<Rightarrow> if flag div 64 mod 2 = 1 then mem_Create name s else (Inl ErrNotExist, s)
      | Some DirNode \<Rightarrow> (Inr (mem_file name), s)
      | Some (FileNode d) \<Rightarrow>
          if flag div 512 mod 2 = 1 then (Inr (mem_file name), mem_put name (FileNode []) s)
          else (Inr (mem_file name), s))"

definition mem_Mkdir :: "string \<Rightarrow> FileMode \<Rightarrow> memfs \<Rightarrow> error option \<times> memfs" where
  "mem_Mkdir name perm s =
     (if map_of s name \<noteq> None then (Some (OsError ''file exists''), s)
      else if \<not> mem_in_dir name s then (Some ErrNotExist, s)
      else (None, mem_put name DirNode s))"

definition mem_Remove :: "string \<Rightarrow> memfs \<Rightarrow> error option \<times> memfs" where
  "mem_Remove name s =
     (if map_of s name = None then (Some ErrNotExist, s)
      else if list_ex (\<lambda>(p, m). p \<noteq> name \<and> under name p) s
      then (Some (OsError ''directory not empty''), s)
      else (None, filter (\<lambda>(p, m). p \<noteq> name) s))"

definition mem_RemoveAll :: "string \<Rightarrow> memfs \<Rightarrow> error option \<times> memfs" where
  "mem_RemoveAll name s = (None, filter (\<lambda>(p, m). \<not> under name p) s)"

definition MemMapFs :: "memfs afero_Fs" where
  "MemMapFs =
     \<lparr>Fs_Stat = mem_Stat,
      Fs_Walk = mem_Walk,
      Fs_Create = mem_Create,
      Fs_Open = mem_Open,
      Fs_OpenFile = mem_OpenFile,
      Fs_Mkdir = mem_Mkdir,
      Fs_Remove = mem_Remove,
      Fs_RemoveAll = mem_RemoveAll\<rparr>"

definition NewMemMapFs :: memfs where
  "NewMemMapFs = [([], DirNode)]"

text \<open>
  The stores of the package's tests: \<open>failStatFs\<close> fails \<open>Stat\<close> on one name,
  \<open>oversizedStatFs\<close> reports 99999 bytes for one name, both also where the walk
  stats that name; \<open>badFs\<close> fails every creation, opening and removal,
  \<open>removeBadFs\<close> every removal, and \<open>badTruncater\<close> a file's truncate.
\<close>

definition failStatFs :: "'s afero_Fs \<Rightarrow> string \<Rightarrow> 's afero_Fs" where
  "failStatFs f name =
     f\<lparr>Fs_Stat := (\<lambda>n s. if name = n then Inl ErrUnexpectedEOF else Fs_Stat f n s),
       Fs_Walk := (\<lambda>root s.
          map (\<lambda>(p, e). if name = p then (p, Inl ErrUnexpectedEOF) else (p, e))
            (Fs_Walk f root s))\<rparr>"

definition badFs :: "'s afero_Fs \<Rightarrow> 's afero_Fs" where
  "badFs f =
     f\<lparr>Fs_Create := (\<lambda>n s. (Inl ErrUnexpectedEOF, s)),
       Fs_Open := (\<lambda>n s. (Inl ErrUnexpectedEOF, s)),
       Fs_OpenFile := (\<lambda>n flag perm s. (Inl ErrUnexpectedEOF, s)),
       Fs_Mkdir := (\<lambda>n perm s. (Some ErrUnexpectedEOF, s)),
       Fs_Remove := (\<lambda>n s. (Some ErrUnexpectedEOF, s)),
       Fs_RemoveAll := (\<lambda>n s. (Some ErrUnexpectedEOF, s))\<rparr>"

definition removeBadFs :: "'s afero_Fs \<Rightarrow> 's afero_Fs" where
  "removeBadFs f =
     f\<lparr>Fs_Remove := (\<lambda>n s. (Some ErrUnexpectedEOF, s)),
       Fs_RemoveAll := (\<lambda>n s. (Some ErrUnexpectedEOF, s))\<rparr>"

definition oversizedStatFs :: "'s afero_Fs \<Rightarrow> string \<Rightarrow> 's afero_Fs" where
  "oversizedStatFs f name =
     f\<lparr>Fs_Stat := (\<lambda>n s.
          case Fs_Stat f n s of
            Inl err \<Rightarrow> Inl err
          | Inr stat \<Rightarrow> if name = n then Inr (stat\<lparr>Size := 99999\<rparr>) else Inr stat),
       Fs_Walk := (\<lambda>root s.
          map (\<lambda>(p, e).
                 case e of
                   Inl err \<Rightarrow> (p, Inl err)
                 | Inr stat \<Rightarrow> if name = p then (p, Inr (stat\<lparr>Size := 99999\<rparr>)) else (p, Inr stat))
            (Fs_Walk f root s))\<rparr>"

definition badTruncater :: "'s afero_File \<Rightarrow> 's afero_File" where
  "badTruncater fi = fi\<lparr>File_Truncate := (\<lambda>sz s. (Some ErrUnexpectedEOF, s))\<rparr>"

text \<open>
  The world of \<open>TestFileSize\<close>: the store and the two local variables its closures
  read and write.
\<close>

record test_world =
  tw_store :: memfs
  tw_capacity :: int64
  tw_hasEnoughCapacity :: bool

definition test_fileSize :: "memfs afero_File \<Rightarrow> test_world fileSize" where
  "test_fileSize fi =
     \<lparr>File =
        \<lparr>File_Write = (\<lambda>p w. case File_Write fi p (tw_store w) of
                                 (r, s') \<Rightarrow> (r, w\<lparr>tw_store := s'\<rparr>)),
         File_WriteAt = (\<lambda>p off w. case File_WriteAt fi p off (tw_store w) of
                                 (r, s') \<Rightarrow> (r, w\<lparr>tw_store := s'\<rparr>)),
         File_Truncate = (\<lambda>sz w. case File_Truncate fi sz (tw_store w) of
                                 (r, s') \<Rightarrow> (r, w\<lparr>tw_store := s'\<rparr>))\<rparr>,
      f_hasEnoughCapacity = (\<lambda>i w. tw_hasEnoughCapacity w),
      f_addCapacity = (\<lambda>i w. w\<lparr>tw_capacity := tw_capacity w + i\<rparr>)\<rparr>"

section \<open>The accounting the specification describes\<close>






section \<open>Examples\<close>

text \<open>
  An empty in-memory filesystem under a budget of 1000 bytes, as the constructor
  returns it, and a session on it with no open handle.
\<close>

definition ex_fs :: "memfs capacityFs" where
  "ex_fs = \<lparr>Fs = MemMapFs, store = NewMemMapFs, limitedSize = 1000, cachedSize = 42\<rparr>"

definition ex_session :: "memfs session" where
  "ex_session = \<lparr>fsys = ex_fs, handles = []\<rparr>"

text \<open>
  A filesystem holding one file of three bytes, with room to spare and with one byte of
  budget left.
\<close>

definition ex_file_store :: memfs where
  "ex_file_store = [([], DirNode), (''f'', FileNode [1, 2, 3])]"

definition ex_file_fs :: "memfs capacityFs" where
  "ex_file_fs = \<lparr>Fs = MemMapFs, store = ex_file_store, limitedSize = 1000, cachedSize = 45\<rparr>"

definition ex_full_fs :: "memfs capacityFs" where
  "ex_full_fs = \<lparr>Fs = MemMapFs, store = ex_file_store, limitedSize = 46, cachedSize = 45\<rparr>"

text \<open>
  The filesystems of \<open>testCreateMkdirMkdirAll\<close>: a limit of 96 with 42 bytes used,
  over a store that reports one name as oversized, and over one whose \<open>Stat\<close> fails on
  one name.
\<close>

definition ex_oversized_fs :: "memfs capacityFs" where
  "ex_oversized_fs =
     \<lparr>Fs = oversizedStatFs MemMapFs ''oversized.txt'', store = NewMemMapFs,
      limitedSize = 96, cachedSize = 42\<rparr>"

definition ex_failstat_fs :: "memfs capacityFs" where
  "ex_failstat_fs =
     \<lparr>Fs = failStatFs MemMapFs ''new'', store = NewMemMapFs,
      limitedSize = 96, cachedSize = 42\<rparr>"




text \<open>
  The tree of \<open>testCapacityRemoveRemoveAll\<close>: a directory holding a file of five
  bytes, over the plain store, over one whose \<open>Stat\<close> fails on the file, and over one
  whose removals fail.
\<close>

definition ex_tree_store :: memfs where
  "ex_tree_store = [([], DirNode), (''d'', DirNode), (''d/ok.txt'', FileNode [1, 2, 3, 4, 5])]"

definition ex_tree_fs :: "memfs capacityFs" where
  "ex_tree_fs = \<lparr>Fs = MemMapFs, store = ex_tree_store, limitedSize = 5000, cachedSize = 89\<rparr>"






definition ex_grow_ops :: "op list" where
  "ex_grow_ops = [OpCreate ''f'', OpTruncate 0 50]"

text \<open>
  The fixtures of the package's tests: the zero-valued filesystem, the one of 96 bytes
  with 42 used, and the trees the tests write, with their file contents as bytes.
\<close>

definition test_zero_fs :: "memfs capacityFs" where
  "test_zero_fs = \<lparr>Fs = MemMapFs, store = NewMemMapFs, limitedSize = 0, cachedSize = 0\<rparr>"

definition test_fs :: "memfs capacityFs" where
  "test_fs = \<lparr>Fs = MemMapFs, store = NewMemMapFs, limitedSize = 96, cachedSize = 42\<rparr>"

definition asdf :: "byte list" where
  "asdf = [97, 115, 100, 102]"

definition test_ok_store :: memfs where
  "test_ok_store = [([], DirNode), (''ok.txt'', FileNode asdf)]"

definition test_scan_store :: memfs where
  "test_scan_store =
     [([], DirNode), (''ok.txt'', FileNode asdf), (''ok2.txt'', FileNode (asdf @ [103, 104])),
      (''dir'', DirNode), (''dir/last.txt'', FileNode [111, 111, 111, 111])]"

definition test_dir1_store :: memfs where
  "test_dir1_store =
     [([], DirNode), (''dir1'', DirNode), (''dir1/ok.txt'', FileNode asdf),
      (''ok.txt'', FileNode (asdf @ [103]))]"

definition test_remove_ops :: "op list" where
  "test_remove_ops =
     [OpMkdir ''dir1'' 493, OpMkdir ''dir1/dir2'' 493,
      OpOpenFile ''dir1/dir2/ok.txt'' 577 493, OpWrite 0 (asdf @ [103])]"

definition test_remove_fs :: "memfs capacityFs" where
  "test_remove_fs =
     fsys (snd (run test_remove_ops
       \<lparr>fsys = \<lparr>Fs = MemMapFs, store = NewMemMapFs, limitedSize = 5000, cachedSize = 42\<rparr>,
        handles = []\<rparr>))"

definition test_world0 :: test_world where
  "test_world0 = \<lparr>tw_store = test_ok_store, tw_capacity = 0, tw_hasEnoughCapacity = False\<rparr>"

section \<open>Basic facts\<close>

lemma onStore_eq: "m (store a) = (r, s') \<Longrightarrow> onStore m a = (r, a\<lparr>store := s'\<rparr>)"
  by (simp add: onStore_def)

lemma hasEnoughCapacity_store:
  "hasEnoughCapacity (a\<lparr>store := s\<rparr>) sz = hasEnoughCapacity a sz"
  by (simp add: hasEnoughCapacity_def)

lemma newFileSize_Write:
  "File_Write fi p (store a) = (r, s') \<Longrightarrow>
   File_Write (File (newFileSize fi)) p a = (r, a\<lparr>store := s'\<rparr>)"
  by (simp add: newFileSize_def liftFile_def onStore_eq)

lemma newFileSize_WriteAt:
  "File_WriteAt fi p off (store a) = (r, s') \<Longrightarrow>
   File_WriteAt (File (newFileSize fi)) p off a = (r, a\<lparr>store := s'\<rparr>)"
  by (simp add: newFileSize_def liftFile_def onStore_eq)

lemma newFileSize_Truncate:
  "File_Truncate fi sz (store a) = (r, s') \<Longrightarrow>
   File_Truncate (File (newFileSize fi)) sz a = (r, a\<lparr>store := s'\<rparr>)"
  by (simp add: newFileSize_def liftFile_def onStore_eq)

text \<open>Subtracting within the non-negative half of \<open>int64\<close> does not wrap.\<close>

lemma sle_diff_nonneg:
  fixes c d :: int64
  assumes "0 \<le>s c" and "0 \<le>s d"
  shows "(0 \<le>s c - d) \<longleftrightarrow> (d \<le>s c)"
proof -
  from assms have c0: "0 \<le> sint c" and d0: "0 \<le> sint d"
    by (simp_all add: word_sle_eq)
  have cu: "sint c < 2 ^ 63" and du: "sint d < 2 ^ 63"
    using sint_lt [of c] sint_lt [of d] by simp_all
  have "sint (c - d) = signed_take_bit 63 (sint c - sint d)"
    by (simp add: sint_word_ariths)
  also have "\<dots> = sint c - sint d"
    using c0 d0 cu du by (intro signed_take_bit_int_eq_self) simp_all
  finally show ?thesis
    by (simp add: word_sle_eq)
qed

text \<open>Evaluation of the reference store on concrete tables.\<close>

lemmas mem_defs =
  MemMapFs_def NewMemMapFs_def mem_Stat_def mem_Walk_def mem_Create_def mem_Open_def
  mem_OpenFile_def mem_Mkdir_def mem_Remove_def mem_RemoveAll_def mem_file_def mem_write_def
  mem_writeAt_def mem_truncate_def mem_put_def mem_info_def mem_parent_def mem_in_dir_def
  under_def ErrNotExist_def

lemmas budget_defs = hasEnoughCapacity_def addCapacity_def word_sle_eq word_sless_alt

section \<open>The package's tests on the model\<close>

text \<open>
  The assertions of \<open>file_test.go\<close> and of the filesystem's tests hold of the
  definitions above, run on the reference store.
\<close>

lemma TestFileSize:
  "snd (fst (Write (test_fileSize (mem_file ''ok.txt'')) [110, 101, 119] test_world0)) =
     Some ErrNotEnoughCapacity \<and>
   snd (fst (WriteAt (test_fileSize (mem_file ''ok.txt'')) [110, 101, 119] 2 test_world0)) =
     Some ErrNotEnoughCapacity \<and>
   (let f = test_fileSize (mem_file ''ok.txt'');
        w0 = test_world0\<lparr>tw_hasEnoughCapacity := True\<rparr>;
        (r1, w1) = Write f [110, 101, 119] w0;
        (r2, w2) = WriteAt f [110, 101, 119] 0 w1;
        (r3, w3) = Truncate (f\<lparr>File := File (test_fileSize (badTruncater (mem_file ''ok.txt'')))\<rparr>) 6 w2;
        (r4, w4) = Truncate f 6 w3
    in snd r1 = None \<and> tw_capacity w1 = 3 \<and> snd r2 = None \<and> tw_capacity w2 = 6 \<and>
       r3 = Some ErrUnexpectedEOF \<and> r4 = None \<and> tw_capacity w4 = 0)"
  by code_simp

lemma TestCalculateFsSize:
  "snd (CalculateSizeSum (failStatFs MemMapFs ''ok.txt'') test_scan_store) = Some ErrUnexpectedEOF \<and>
   CalculateSizeSum MemMapFs test_scan_store = (4 + 6 + 4 + 42 + 42, None)"
  by code_simp

lemma TestCapacityFsDeferError:
  "\<not> isl (Fs_Stat MemMapFs ''ok.txt''
      (store (deferError (test_zero_fs\<lparr>store := test_ok_store\<rparr>) ''ok.txt'' None))) \<and>
   isl (Fs_Stat MemMapFs ''ok.txt''
      (store (deferError (test_zero_fs\<lparr>store := test_ok_store\<rparr>) ''ok.txt''
         (Some ErrUnexpectedEOF))))"
  by code_simp

lemma TestCapacityFsAddCapacity: "cachedSize (addCapacity test_zero_fs 5) = 5"
  by code_simp

lemma TestCapacityFsHasEnoughCapacity:
  "\<not> hasEnoughCapacity test_zero_fs 5 \<and> hasEnoughCapacity (test_zero_fs\<lparr>limitedSize := 5\<rparr>) 5"
  by code_simp

lemma TestCapacityStatAndCheckSize:
  "fst (statAndCheckSize test_zero_fs ''404'') = None \<and>
   fst (statAndCheckSize (test_zero_fs\<lparr>store := test_ok_store, limitedSize := 3\<rparr>) ''ok.txt'') =
     Some ErrNotEnoughCapacity \<and>
   fst (statAndCheckSize (test_zero_fs\<lparr>store := test_ok_store, limitedSize := 6\<rparr>) ''ok.txt'') =
     None \<and>
   cachedSize
     (snd (statAndCheckSize (test_zero_fs\<lparr>store := test_ok_store, limitedSize := 6\<rparr>) ''ok.txt'')) =
     4"
  by code_simp

lemma TestCapacityFsBeforeRemove:
  "beforeRemove test_fs ''404'' = (0, None) \<and>
   beforeRemove (test_fs\<lparr>store := test_dir1_store\<rparr>) ''dir1'' = (42 + 4, None) \<and>
   snd (beforeRemove
          (test_fs\<lparr>Fs := failStatFs MemMapFs ''dir1/ok.txt'', store := test_dir1_store\<rparr>)
          ''dir1'') = Some ErrUnexpectedEOF \<and>
   beforeRemove
     (test_fs\<lparr>Fs := failStatFs MemMapFs ''dir1/ok.txt'', store := test_dir1_store\<rparr>)
     ''ok.txt'' = (5, None)"
  by code_simp

lemma TestCapacityFsCreate:
  "snd (fst (Create (test_fs\<lparr>Fs := badFs MemMapFs\<rparr>) ''err.txt'')) = Some ErrUnexpectedEOF \<and>
   (case Create (test_fs\<lparr>Fs := oversizedStatFs MemMapFs ''oversized.txt''\<rparr>) ''oversized.txt'' of
      ((fo, err), a) \<Rightarrow>
        err = Some ErrNotEnoughCapacity \<and> isl (Fs_Stat (Fs a) ''oversized.txt'' (store a))) \<and>
   snd (fst (Create test_fs ''ok.txt'')) = None"
  by code_simp

lemma TestCapacityFsMkdir:
  "fst (Mkdir (test_fs\<lparr>Fs := badFs MemMapFs\<rparr>) ''err.txt'' 493) = Some ErrUnexpectedEOF \<and>
   (case Mkdir (test_fs\<lparr>Fs := oversizedStatFs MemMapFs ''oversized.txt''\<rparr>) ''oversized.txt'' 493 of
      (err, a) \<Rightarrow>
        err = Some ErrNotEnoughCapacity \<and> isl (Fs_Stat (Fs a) ''oversized.txt'' (store a))) \<and>
   fst (Mkdir test_fs ''ok.txt'' 493) = None"
  by code_simp

lemma TestCapacityFsMkdirAll:
  "fst (MkdirAll (test_fs\<lparr>Fs := badFs MemMapFs\<rparr>) ''err.txt'' 493) = Some ErrUnexpectedEOF \<and>
   (case MkdirAll (test_fs\<lparr>Fs := oversizedStatFs MemMapFs ''oversized.txt''\<rparr>)
           ''oversized.txt'' 493 of
      (err, a) \<Rightarrow>
        err = Some ErrNotEnoughCapacity \<and> isl (Fs_Stat (Fs a) ''oversized.txt'' (store a))) \<and>
   fst (MkdirAll test_fs ''ok.txt'' 493) = None \<and>
   (case NewCapacityFs (Some (MemMapFs, NewMemMapFs)) 1024 of
      Inl err \<Rightarrow> False
    | Inr a \<Rightarrow>
        (case MkdirAll a ''dir1/dir2'' 493 of
           (e1, a1) \<Rightarrow>
             e1 = None \<and> cachedSize a1 = 42 * 3 \<and>
             (case MkdirAll a1 ''dir1/dir2/dir3/dir4'' 493 of
                (e2, a2) \<Rightarrow> e2 = None \<and> cachedSize a2 = 42 * 5)))"
  by code_simp

lemma TestCapacityFsOpen:
  "snd (fst (Open test_fs ''404.txt'')) \<noteq> None \<and>
   snd (fst (Open (test_fs\<lparr>store := test_ok_store\<rparr>) ''ok.txt'')) = None \<and>
   snd (fst (OpenFile test_fs ''404.txt'' 2 493)) \<noteq> None \<and>
   snd (fst (OpenFile (test_fs\<lparr>store := test_ok_store\<rparr>) ''ok.txt'' 2 493)) = None"
  by code_simp

lemma TestCapacityFsRemove:
  "cachedSize test_remove_fs = 42 * 3 + 5 \<and>
   fst (Remove (test_remove_fs\<lparr>Fs := failStatFs MemMapFs ''dir1/dir2/ok.txt''\<rparr>) ''dir1/dir2'') =
     snd (beforeRemove (test_remove_fs\<lparr>Fs := failStatFs MemMapFs ''dir1/dir2/ok.txt''\<rparr>)
            ''dir1/dir2'') \<and>
   fst (Remove (test_remove_fs\<lparr>Fs := failStatFs MemMapFs ''dir1/dir2/ok.txt''\<rparr>) ''dir1/dir2'') \<noteq>
     None \<and>
   fst (Remove (test_remove_fs\<lparr>Fs := removeBadFs MemMapFs\<rparr>) ''dir1/dir2'') =
     Some ErrUnexpectedEOF \<and>
   (case Remove test_remove_fs ''dir1/dir2'' of
      (err, a) \<Rightarrow>
        err \<noteq> None \<and>
        (case RemoveAll a ''dir1/dir2'' of (err', a') \<Rightarrow> err' = None \<and> cachedSize a' = 84))"
  by code_simp

lemma TestCapacityFsRemoveAll:
  "fst (RemoveAll (test_remove_fs\<lparr>Fs := failStatFs MemMapFs ''dir1/dir2/ok.txt''\<rparr>)
          ''dir1/dir2'') =
     snd (beforeRemove (test_remove_fs\<lparr>Fs := failStatFs MemMapFs ''dir1/dir2/ok.txt''\<rparr>)
            ''dir1/dir2'') \<and>
   fst (RemoveAll (test_remove_fs\<lparr>Fs := failStatFs MemMapFs ''dir1/dir2/ok.txt''\<rparr>)
          ''dir1/dir2'') \<noteq> None \<and>
   fst (RemoveAll (test_remove_fs\<lparr>Fs := removeBadFs MemMapFs\<rparr>) ''dir1/dir2'') =
     Some ErrUnexpectedEOF \<and>
   (case RemoveAll test_remove_fs ''dir1/dir2'' of
      (err, a) \<Rightarrow> err = None \<and> cachedSize a = 84)"
  by code_simp

lemma TestNewCapacityFs:
  "isl (NewCapacityFs (None :: (memfs afero_Fs \<times> memfs) option) (- 1)) \<and>
   isl (NewCapacityFs (Some (MemMapFs, NewMemMapFs)) (- 1)) \<and>
   isl (NewCapacityFs (Some (MemMapFs, test_ok_store)) 0) \<and>
   (case NewCapacityFs (Some (failStatFs MemMapFs ''ok.txt'', test_ok_store)) 50 of
      Inl err \<Rightarrow> Some err = snd (CalculateSizeSum (failStatFs MemMapFs ''ok.txt'') test_ok_store)
    | Inr a \<Rightarrow> False) \<and>
   \<not> isl (NewCapacityFs (Some (MemMapFs, test_ok_store)) 50)"
  by code_simp

lemma TestPossibleCombinations:
  "possibleCombinations [''dir1'', ''dir2'', ''dir3''] = [''dir1'', ''dir1/dir2'', ''dir1/dir2/dir3'']"
  by code_simp

section \<open>The file handle\<close>

lemma Write_refused:
  "\<not> f_hasEnoughCapacity f (of_nat (length p)) w \<Longrightarrow>
   Write f p w = ((0, Some ErrNotEnoughCapacity), w)"
  by (simp add: Write_def)

lemma Write_delegated:
  "f_hasEnoughCapacity f (of_nat (length p)) w \<Longrightarrow> File_Write (File f) p w = ((n, err), w') \<Longrightarrow>
   Write f p w = ((n, err), f_addCapacity f (of_int n) w')"
  by (simp add: Write_def)

text \<open>
  C2. \<open>Write\<close> on a handle of the filesystem: when the budget check on \<open>len(p)\<close>
  fails it returns \<open>(0, ErrNotEnoughCapacity)\<close> and neither the store nor the budget
  changes; otherwise it returns what the wrapped write returns, on the store that write
  left, and the cached total has grown by the count \<open>n\<close> the wrapped write reported,
  also when that write reports an error or fewer bytes than \<open>len(p)\<close>.
\<close>

theorem Write_checks_then_charges_written:
  "(\<not> hasEnoughCapacity a (of_nat (length p)) \<longrightarrow>
      Write (newFileSize fi) p a = ((0, Some ErrNotEnoughCapacity), a)) \<and>
   (hasEnoughCapacity a (of_nat (length p)) \<longrightarrow> File_Write fi p (store a) = ((n, err), s') \<longrightarrow>
      Write (newFileSize fi) p a =
        ((n, err), a\<lparr>store := s', cachedSize := cachedSize a + of_int n\<rparr>))"
proof (intro conjI impI)
  assume "\<not> hasEnoughCapacity a (of_nat (length p))"
  then show "Write (newFileSize fi) p a = ((0, Some ErrNotEnoughCapacity), a)"
    by (simp add: Write_refused newFileSize_def)
next
  assume ok: "hasEnoughCapacity a (of_nat (length p))"
    and w: "File_Write fi p (store a) = ((n, err), s')"
  from ok have "f_hasEnoughCapacity (newFileSize fi) (of_nat (length p)) a"
    by (simp add: newFileSize_def)
  from Write_delegated [OF this newFileSize_Write [OF w]]
  show "Write (newFileSize fi) p a =
        ((n, err), a\<lparr>store := s', cachedSize := cachedSize a + of_int n\<rparr>)"
    by (simp add: newFileSize_def addCapacity_def)
qed

theorem Write_checks_then_charges_written_witness:
  "Write (newFileSize (mem_file ''f'')) [7, 8] ex_full_fs =
     ((0, Some ErrNotEnoughCapacity), ex_full_fs) \<and>
   Write (newFileSize (mem_file ''f'')) [7, 8] ex_file_fs =
     ((2, None),
      ex_file_fs\<lparr>store := [([], DirNode), (''f'', FileNode [1, 2, 3, 7, 8])], cachedSize := 47\<rparr>)"
proof -
  have no: "\<not> hasEnoughCapacity ex_full_fs (of_nat (length [7, 8 :: byte]))"
    by (simp add: ex_full_fs_def budget_defs)
  have yes: "hasEnoughCapacity ex_file_fs (of_nat (length [7, 8 :: byte]))"
    by (simp add: ex_file_fs_def budget_defs)
  have w: "File_Write (mem_file ''f'') [7, 8] (store ex_file_fs) =
      ((2, None), [([], DirNode), (''f'', FileNode [1, 2, 3, 7, 8])])"
    by (simp add: ex_file_fs_def ex_file_store_def mem_defs)
  have c: "cachedSize ex_file_fs + of_int 2 = 47"
    by (simp add: ex_file_fs_def)
  from Write_checks_then_charges_written [THEN conjunct1, rule_format, OF no]
    Write_checks_then_charges_written [THEN conjunct2, rule_format, OF yes w]
    c
  show ?thesis by simp
qed

text \<open>
  C8. \<open>WriteAt\<close> is \<open>Write\<close> with the wrapped write replaced by the wrapped
  \<open>WriteAt\<close> at the given offset: the same check on \<open>len(p)\<close>, the same refusal,
  and the cached total grown by the count the wrapped call reports. The offset reaches
  the wrapped file as it is and appears nowhere in the budget, so bytes written over
  existing ones are charged in full.
\<close>

theorem WriteAt_charges_like_Write:
  "WriteAt f p off w =
     Write (f\<lparr>File := (File f)\<lparr>File_Write := (\<lambda>q. File_WriteAt (File f) q off)\<rparr>\<rparr>) p w \<and>
   (\<not> hasEnoughCapacity a (of_nat (length p)) \<longrightarrow>
      WriteAt (newFileSize fi) p off a = ((0, Some ErrNotEnoughCapacity), a)) \<and>
   (hasEnoughCapacity a (of_nat (length p)) \<longrightarrow>
      File_WriteAt fi p off (store a) = ((n, err), s') \<longrightarrow>
      WriteAt (newFileSize fi) p off a =
        ((n, err), a\<lparr>store := s', cachedSize := cachedSize a + of_int n\<rparr>))"
proof (intro conjI impI)
  show "WriteAt f p off w =
     Write (f\<lparr>File := (File f)\<lparr>File_Write := (\<lambda>q. File_WriteAt (File f) q off)\<rparr>\<rparr>) p w"
    by (simp add: WriteAt_def Write_def)
next
  assume "\<not> hasEnoughCapacity a (of_nat (length p))"
  then show "WriteAt (newFileSize fi) p off a = ((0, Some ErrNotEnoughCapacity), a)"
    by (simp add: WriteAt_def newFileSize_def)
next
  assume ok: "hasEnoughCapacity a (of_nat (length p))"
    and w: "File_WriteAt fi p off (store a) = ((n, err), s')"
  have "File_WriteAt (File (newFileSize fi)) p off a = ((n, err), a\<lparr>store := s'\<rparr>)"
    by (rule newFileSize_WriteAt [OF w])
  with ok show "WriteAt (newFileSize fi) p off a =
        ((n, err), a\<lparr>store := s', cachedSize := cachedSize a + of_int n\<rparr>)"
    by (simp add: WriteAt_def) (simp add: newFileSize_def addCapacity_def)
qed

theorem WriteAt_charges_like_Write_witness:
  "WriteAt (newFileSize (mem_file ''f'')) [7, 8] 0 ex_full_fs =
     ((0, Some ErrNotEnoughCapacity), ex_full_fs) \<and>
   WriteAt (newFileSize (mem_file ''f'')) [7, 8] 0 ex_file_fs =
     ((2, None),
      ex_file_fs\<lparr>store := [([], DirNode), (''f'', FileNode [7, 8, 3])], cachedSize := 47\<rparr>) \<and>
   WriteAt (newFileSize (mem_file ''f'')) [7, 8] 1 ex_file_fs =
     ((2, None),
      ex_file_fs\<lparr>store := [([], DirNode), (''f'', FileNode [1, 7, 8])], cachedSize := 47\<rparr>)"
proof -
  have no: "\<not> hasEnoughCapacity ex_full_fs (of_nat (length [7, 8 :: byte]))"
    by (simp add: ex_full_fs_def budget_defs)
  have yes: "hasEnoughCapacity ex_file_fs (of_nat (length [7, 8 :: byte]))"
    by (simp add: ex_file_fs_def budget_defs)
  have w0: "File_WriteAt (mem_file ''f'') [7, 8] 0 (store ex_file_fs) =
      ((2, None), [([], DirNode), (''f'', FileNode [7, 8, 3])])"
    by (simp add: ex_file_fs_def ex_file_store_def mem_defs budget_defs)
  have w1: "File_WriteAt (mem_file ''f'') [7, 8] 1 (store ex_file_fs) =
      ((2, None), [([], DirNode), (''f'', FileNode [1, 7, 8])])"
    by (simp add: ex_file_fs_def ex_file_store_def mem_defs budget_defs)
  have c: "cachedSize ex_file_fs + of_int 2 = 47"
    by (simp add: ex_file_fs_def)
  from WriteAt_charges_like_Write [THEN conjunct2, THEN conjunct1, rule_format, OF no]
    WriteAt_charges_like_Write [THEN conjunct2, THEN conjunct2, rule_format, OF yes w0]
    WriteAt_charges_like_Write [THEN conjunct2, THEN conjunct2, rule_format, OF yes w1]
    c
  show ?thesis by simp
qed

text \<open>
  C5. \<open>Truncate\<close> on a handle of the filesystem calls the wrapped truncate first. When
  that fails, its error is returned and the cached total is as before; when it succeeds,
  the cached total is lowered by the requested new size \<open>sz\<close>, whatever the size of the
  file was.
\<close>

theorem Truncate_subtracts_new_size:
  "(File_Truncate fi sz (store a) = (Some err, s') \<longrightarrow>
      Truncate (newFileSize fi) sz a = (Some err, a\<lparr>store := s'\<rparr>)) \<and>
   (File_Truncate fi sz (store a) = (None, s') \<longrightarrow>
      Truncate (newFileSize fi) sz a =
        (None, a\<lparr>store := s', cachedSize := cachedSize a - sz\<rparr>))"
proof (intro conjI impI)
  assume "File_Truncate fi sz (store a) = (Some err, s')"
  from newFileSize_Truncate [OF this]
  show "Truncate (newFileSize fi) sz a = (Some err, a\<lparr>store := s'\<rparr>)"
    by (simp add: Truncate_def)
next
  assume "File_Truncate fi sz (store a) = (None, s')"
  from newFileSize_Truncate [OF this]
  show "Truncate (newFileSize fi) sz a =
        (None, a\<lparr>store := s', cachedSize := cachedSize a - sz\<rparr>)"
    by (simp add: Truncate_def) (simp add: newFileSize_def addCapacity_def)
qed

theorem Truncate_subtracts_new_size_witness:
  "Truncate (newFileSize (mem_file ''g'')) 1 ex_file_fs = (Some ErrNotExist, ex_file_fs) \<and>
   Truncate (newFileSize (mem_file ''f'')) 1 ex_file_fs =
     (None, ex_file_fs\<lparr>store := [([], DirNode), (''f'', FileNode [1])], cachedSize := 44\<rparr>) \<and>
   Truncate (newFileSize (mem_file ''f'')) 3 ex_file_fs =
     (None, ex_file_fs\<lparr>store := ex_file_store, cachedSize := 42\<rparr>)"
proof -
  have g: "File_Truncate (mem_file ''g'') 1 (store ex_file_fs) = (Some ErrNotExist, store ex_file_fs)"
    by (simp add: ex_file_fs_def ex_file_store_def mem_defs)
  have f1: "File_Truncate (mem_file ''f'') 1 (store ex_file_fs) =
      (None, [([], DirNode), (''f'', FileNode [1])])"
    by (simp add: ex_file_fs_def ex_file_store_def mem_defs budget_defs)
  have f3: "File_Truncate (mem_file ''f'') 3 (store ex_file_fs) = (None, ex_file_store)"
    by (simp add: ex_file_fs_def ex_file_store_def mem_defs budget_defs)
  have c: "cachedSize ex_file_fs - 1 = 44" "cachedSize ex_file_fs - 3 = 42"
    by (simp_all add: ex_file_fs_def)
  from Truncate_subtracts_new_size [THEN conjunct1, rule_format, OF g]
    Truncate_subtracts_new_size [THEN conjunct2, rule_format, OF f1]
    Truncate_subtracts_new_size [THEN conjunct2, rule_format, OF f3]
    c
  show ?thesis by simp
qed

section \<open>Create and Mkdir\<close>

lemma statAndCheckSize_fits:
  "Fs_Stat (Fs a) name (store a) = Inr stat \<Longrightarrow> hasEnoughCapacity a (Size stat) \<Longrightarrow>
   statAndCheckSize a name = (None, a\<lparr>cachedSize := cachedSize a + Size stat\<rparr>)"
  by (simp add: statAndCheckSize_def addCapacity_def)

lemma statAndCheckSize_exceeds:
  "Fs_Stat (Fs a) name (store a) = Inr stat \<Longrightarrow> \<not> hasEnoughCapacity a (Size stat) \<Longrightarrow>
   statAndCheckSize a name = (Some ErrNotEnoughCapacity, a)"
  by (simp add: statAndCheckSize_def)

lemma statAndCheckSize_stat_fails:
  "Fs_Stat (Fs a) name (store a) = Inl err \<Longrightarrow> statAndCheckSize a name = (None, a)"
  by (simp add: statAndCheckSize_def)

lemma Create_underlying_fails:
  "Fs_Create (Fs a) name (store a) = (Inl err, s1) \<Longrightarrow>
   Create a name = ((None, Some err), a\<lparr>store := s1\<rparr>)"
  by (simp add: Create_def onStore_eq)

lemma Create_exceeds:
  assumes "Fs_Create (Fs a) name (store a) = (Inr fi, s1)"
    and "Fs_Stat (Fs a) name s1 = Inr stat"
    and "\<not> hasEnoughCapacity a (Size stat)"
    and "Fs_Remove (Fs a) name s1 = (r, s2)"
  shows "Create a name = ((Some (newFileSize fi), Some ErrNotEnoughCapacity), a\<lparr>store := s2\<rparr>)"
proof -
  let ?a1 = "a\<lparr>store := s1\<rparr>"
  have c: "onStore (Fs_Create (Fs a) name) a = (Inr fi, ?a1)"
    using assms(1) by (simp add: onStore_def)
  have "statAndCheckSize ?a1 name = (Some ErrNotEnoughCapacity, ?a1)"
    by (rule statAndCheckSize_exceeds [where stat = stat])
       (simp_all add: assms hasEnoughCapacity_store)
  moreover have "onStore (Fs_Remove (Fs ?a1) name) ?a1 = (r, a\<lparr>store := s2\<rparr>)"
    using assms(4) by (simp add: onStore_def)
  ultimately show ?thesis
    by (simp add: Create_def c)
qed

lemma Create_fits:
  assumes "Fs_Create (Fs a) name (store a) = (Inr fi, s1)"
    and "Fs_Stat (Fs a) name s1 = Inr stat"
    and "hasEnoughCapacity a (Size stat)"
  shows "Create a name =
    ((Some (newFileSize fi), None), a\<lparr>store := s1, cachedSize := cachedSize a + Size stat\<rparr>)"
proof -
  let ?a1 = "a\<lparr>store := s1\<rparr>"
  have c: "onStore (Fs_Create (Fs a) name) a = (Inr fi, ?a1)"
    using assms(1) by (simp add: onStore_def)
  have "statAndCheckSize ?a1 name = (None, ?a1\<lparr>cachedSize := cachedSize ?a1 + Size stat\<rparr>)"
    by (rule statAndCheckSize_fits) (simp_all add: assms hasEnoughCapacity_store)
  then show ?thesis
    by (simp add: Create_def c)
qed

lemma Create_stat_fails:
  assumes "Fs_Create (Fs a) name (store a) = (Inr fi, s1)"
    and "Fs_Stat (Fs a) name s1 = Inl err"
  shows "Create a name = ((Some (newFileSize fi), None), a\<lparr>store := s1\<rparr>)"
proof -
  let ?a1 = "a\<lparr>store := s1\<rparr>"
  have c: "onStore (Fs_Create (Fs a) name) a = (Inr fi, ?a1)"
    using assms(1) by (simp add: onStore_def)
  have "statAndCheckSize ?a1 name = (None, ?a1)"
    by (rule statAndCheckSize_stat_fails [where err = err]) (simp add: assms)
  then show ?thesis
    by (simp add: Create_def c)
qed

lemma Mkdir_underlying_fails:
  "Fs_Mkdir (Fs a) name perm (store a) = (Some err, s1) \<Longrightarrow>
   Mkdir a name perm = (Some err, a\<lparr>store := s1\<rparr>)"
  by (simp add: Mkdir_def onStore_eq)



lemma Mkdir_stat_fails:
  assumes "Fs_Mkdir (Fs a) name perm (store a) = (None, s1)"
    and "Fs_Stat (Fs a) name s1 = Inl err"
  shows "Mkdir a name perm = (None, a\<lparr>store := s1\<rparr>)"
proof -
  let ?a1 = "a\<lparr>store := s1\<rparr>"
  have c: "onStore (Fs_Mkdir (Fs a) name perm) a = (None, ?a1)"
    using assms(1) by (simp add: onStore_def)
  have "statAndCheckSize ?a1 name = (None, ?a1)"
    by (rule statAndCheckSize_stat_fails [where err = err]) (simp add: assms)
  then show ?thesis
    by (simp add: Mkdir_def c)
qed

text \<open>
  C3. \<open>Create\<close> calls the wrapped \<open>Create\<close> first and returns its error as it is
  when that fails. When it succeeds and the stat of the new entry succeeds, the statted
  size is checked against the budget: if it does not fit, the wrapped \<open>Remove\<close> is
  called on the name, its result \<open>r\<close> is dropped whatever it is, and
  \<open>ErrNotEnoughCapacity\<close> is returned with the cached total as before; if it fits,
  the cached total grows by the statted size and the wrapper around the created file is
  returned.
\<close>

theorem Create_checks_after_creating:
  "(Fs_Create (Fs a) name (store a) = (Inl err, s1) \<longrightarrow>
      Create a name = ((None, Some err), a\<lparr>store := s1\<rparr>)) \<and>
   (Fs_Create (Fs a) name (store a) = (Inr fi, s1) \<and> Fs_Stat (Fs a) name s1 = Inr stat \<and>
    \<not> hasEnoughCapacity a (Size stat) \<and> Fs_Remove (Fs a) name s1 = (r, s2) \<longrightarrow>
      Create a name = ((Some (newFileSize fi), Some ErrNotEnoughCapacity), a\<lparr>store := s2\<rparr>)) \<and>
   (Fs_Create (Fs a) name (store a) = (Inr fi, s1) \<and> Fs_Stat (Fs a) name s1 = Inr stat \<and>
    hasEnoughCapacity a (Size stat) \<longrightarrow>
      Create a name =
        ((Some (newFileSize fi), None),
         a\<lparr>store := s1, cachedSize := cachedSize a + Size stat\<rparr>))"
  using Create_underlying_fails [of a name err s1]
    Create_exceeds [of a name fi s1 stat r s2]
    Create_fits [of a name fi s1 stat]
  by blast

theorem Create_checks_after_creating_witness:
  "Create ex_fs [] = ((None, Some (OsError ''is a directory'')), ex_fs) \<and>
   Create ex_oversized_fs ''oversized.txt'' =
     ((Some (newFileSize (mem_file ''oversized.txt'')), Some ErrNotEnoughCapacity),
      ex_oversized_fs) \<and>
   Create ex_oversized_fs ''ok.txt'' =
     ((Some (newFileSize (mem_file ''ok.txt'')), None),
      ex_oversized_fs\<lparr>store := [([], DirNode), (''ok.txt'', FileNode [])], cachedSize := 42\<rparr>)"
proof -
  have c1: "Fs_Create (Fs ex_fs) [] (store ex_fs) = (Inl (OsError ''is a directory''), store ex_fs)"
    by (simp add: ex_fs_def mem_defs)
  have c2: "Fs_Create (Fs ex_oversized_fs) ''oversized.txt'' (store ex_oversized_fs) =
      (Inr (mem_file ''oversized.txt''), [([], DirNode), (''oversized.txt'', FileNode [])]) \<and>
    Fs_Stat (Fs ex_oversized_fs) ''oversized.txt'' [([], DirNode), (''oversized.txt'', FileNode [])] =
      Inr \<lparr>Size = 99999, IsDir = False\<rparr> \<and>
    \<not> hasEnoughCapacity ex_oversized_fs (Size \<lparr>Size = 99999, IsDir = False\<rparr>) \<and>
    Fs_Remove (Fs ex_oversized_fs) ''oversized.txt''
      [([], DirNode), (''oversized.txt'', FileNode [])] = (None, store ex_oversized_fs)"
    by (simp add: ex_oversized_fs_def oversizedStatFs_def mem_defs budget_defs)
  have c3: "Fs_Create (Fs ex_oversized_fs) ''ok.txt'' (store ex_oversized_fs) =
      (Inr (mem_file ''ok.txt''), [([], DirNode), (''ok.txt'', FileNode [])]) \<and>
    Fs_Stat (Fs ex_oversized_fs) ''ok.txt'' [([], DirNode), (''ok.txt'', FileNode [])] =
      Inr \<lparr>Size = 0, IsDir = False\<rparr> \<and>
    hasEnoughCapacity ex_oversized_fs (Size \<lparr>Size = 0, IsDir = False\<rparr>)"
    by (simp add: ex_oversized_fs_def oversizedStatFs_def mem_defs budget_defs)
  have k: "cachedSize ex_oversized_fs + Size \<lparr>Size = 0, IsDir = False\<rparr> = 42"
    by (simp add: ex_oversized_fs_def)
  from Create_checks_after_creating [THEN conjunct1, rule_format, OF c1]
    Create_checks_after_creating [THEN conjunct2, THEN conjunct1, rule_format, OF c2]
    Create_checks_after_creating [THEN conjunct2, THEN conjunct2, rule_format, OF c3]
    k
  show ?thesis by simp
qed

text \<open>
  C10. When the wrapped \<open>Create\<close> or \<open>Mkdir\<close> has succeeded and the stat of the new
  entry then fails, the operation returns success: the store is the one the wrapped
  call left, with the entry in it and no \<open>Remove\<close> applied, and the cached total is as
  before.
\<close>

theorem stat_failure_after_creation_is_success:
  "(Fs_Create (Fs a) name (store a) = (Inr fi, s1) \<and> Fs_Stat (Fs a) name s1 = Inl err \<longrightarrow>
      Create a name = ((Some (newFileSize fi), None), a\<lparr>store := s1\<rparr>)) \<and>
   (Fs_Mkdir (Fs a) name perm (store a) = (None, s1) \<and> Fs_Stat (Fs a) name s1 = Inl err \<longrightarrow>
      Mkdir a name perm = (None, a\<lparr>store := s1\<rparr>))"
  using Create_stat_fails [of a name fi s1 err] Mkdir_stat_fails [of a name perm s1 err]
  by blast

theorem stat_failure_after_creation_is_success_witness:
  "Create ex_failstat_fs ''new'' =
     ((Some (newFileSize (mem_file ''new'')), None),
      ex_failstat_fs\<lparr>store := [([], DirNode), (''new'', FileNode [])]\<rparr>) \<and>
   Mkdir ex_failstat_fs ''new'' 493 =
     (None, ex_failstat_fs\<lparr>store := [([], DirNode), (''new'', DirNode)]\<rparr>) \<and>
   cachedSize (ex_failstat_fs\<lparr>store := [([], DirNode), (''new'', DirNode)]\<rparr>) = 42 \<and>
   fst (walkFn (mem_Walk [] [([], DirNode), (''new'', DirNode)]) 0) = 84"
proof -
  have c: "Fs_Create (Fs ex_failstat_fs) ''new'' (store ex_failstat_fs) =
      (Inr (mem_file ''new''), [([], DirNode), (''new'', FileNode [])]) \<and>
    Fs_Stat (Fs ex_failstat_fs) ''new'' [([], DirNode), (''new'', FileNode [])] =
      Inl ErrUnexpectedEOF"
    by (simp add: ex_failstat_fs_def failStatFs_def mem_defs)
  have m: "Fs_Mkdir (Fs ex_failstat_fs) ''new'' 493 (store ex_failstat_fs) =
      (None, [([], DirNode), (''new'', DirNode)]) \<and>
    Fs_Stat (Fs ex_failstat_fs) ''new'' [([], DirNode), (''new'', DirNode)] =
      Inl ErrUnexpectedEOF"
    by (simp add: ex_failstat_fs_def failStatFs_def mem_defs)
  have k: "cachedSize (ex_failstat_fs\<lparr>store := [([], DirNode), (''new'', DirNode)]\<rparr>) = 42"
    "fst (walkFn (mem_Walk [] [([], DirNode), (''new'', DirNode)]) 0) = 84"
    by (simp_all add: ex_failstat_fs_def mem_defs)
  from stat_failure_after_creation_is_success [THEN conjunct1, rule_format, OF c]
    stat_failure_after_creation_is_success [THEN conjunct2, rule_format, OF m]
    k
  show ?thesis by simp
qed

section \<open>MkdirAll\<close>

















section \<open>Remove and RemoveAll\<close>




lemma beforeRemove_missing:
  "Fs_Stat (Fs a) name (store a) = Inl err \<Longrightarrow> beforeRemove a name = (0, None)"
  by (simp add: beforeRemove_def)









section \<open>The constructor\<close>




section \<open>The cached total over a run\<close>






lemma Truncate_charge:
  assumes "Truncate (newFileSize fi) sz a = (None, a')"
  shows "cachedSize a' = cachedSize a - sz \<and> Fs a' = Fs a"
  using assms
  by (auto simp: Truncate_def newFileSize_def liftFile_def onStore_def addCapacity_def
      split: prod.splits option.splits)


lemma Remove_subtracts:
  assumes "beforeRemove a name = (sz, None)" and "Remove a name = (None, a')"
  shows "cachedSize a' = cachedSize a - sz \<and> Fs a' = Fs a"
  using assms
  by (auto simp: Remove_def onStore_def addCapacity_def split: prod.splits option.splits)

lemma RemoveAll_subtracts:
  assumes "beforeRemove a name = (sz, None)" and "RemoveAll a name = (None, a')"
  shows "cachedSize a' = cachedSize a - sz \<and> Fs a' = Fs a"
  using assms
  by (auto simp: RemoveAll_def onStore_def addCapacity_def split: prod.splits option.splits)











section \<open>The sign of the cached total\<close>

text \<open>
  C9, as the code has it. \<open>addCapacity\<close> adds whatever it is given. A successful
  truncate leaves the previous total minus the requested size, and a successful removal
  the previous total minus the size computed before it; nothing compares that amount
  with the total. From a non-negative total and a non-negative amount, the result is
  non-negative exactly when the amount is at most the total.
\<close>

theorem decrements_are_unchecked:
  "0 \<le>s cachedSize a \<and> 0 \<le>s sz \<longrightarrow>
     (Truncate (newFileSize fi) sz a = (None, a') \<longrightarrow>
        cachedSize a' = cachedSize a - sz \<and> (0 \<le>s cachedSize a' \<longleftrightarrow> sz \<le>s cachedSize a)) \<and>
     (beforeRemove a name = (sz, None) \<and> Remove a name = (None, a') \<longrightarrow>
        cachedSize a' = cachedSize a - sz \<and> (0 \<le>s cachedSize a' \<longleftrightarrow> sz \<le>s cachedSize a)) \<and>
     (beforeRemove a name = (sz, None) \<and> RemoveAll a name = (None, a') \<longrightarrow>
        cachedSize a' = cachedSize a - sz \<and> (0 \<le>s cachedSize a' \<longleftrightarrow> sz \<le>s cachedSize a))"
proof (intro impI)
  assume "0 \<le>s cachedSize a \<and> 0 \<le>s sz"
  then have d: "(0 \<le>s cachedSize a - sz) \<longleftrightarrow> (sz \<le>s cachedSize a)"
    by (simp add: sle_diff_nonneg)
  show "(Truncate (newFileSize fi) sz a = (None, a') \<longrightarrow>
        cachedSize a' = cachedSize a - sz \<and> (0 \<le>s cachedSize a' \<longleftrightarrow> sz \<le>s cachedSize a)) \<and>
     (beforeRemove a name = (sz, None) \<and> Remove a name = (None, a') \<longrightarrow>
        cachedSize a' = cachedSize a - sz \<and> (0 \<le>s cachedSize a' \<longleftrightarrow> sz \<le>s cachedSize a)) \<and>
     (beforeRemove a name = (sz, None) \<and> RemoveAll a name = (None, a') \<longrightarrow>
        cachedSize a' = cachedSize a - sz \<and> (0 \<le>s cachedSize a' \<longleftrightarrow> sz \<le>s cachedSize a))"
    using d Truncate_charge [of fi sz a a'] Remove_subtracts [of a name sz a']
      RemoveAll_subtracts [of a name sz a']
    by simp
qed

theorem decrements_are_unchecked_witness:
  "cachedSize (snd (Truncate (newFileSize (mem_file ''f'')) 1 ex_file_fs)) = 44 \<and>
   0 \<le>s cachedSize (snd (Truncate (newFileSize (mem_file ''f'')) 1 ex_file_fs)) \<and>
   cachedSize (snd (Truncate (newFileSize (mem_file ''f'')) 50 ex_file_fs)) = - 5 \<and>
   \<not> 0 \<le>s cachedSize (snd (Truncate (newFileSize (mem_file ''f'')) 50 ex_file_fs)) \<and>
   cachedSize (snd (Remove ex_tree_fs ''d/ok.txt'')) = 84 \<and>
   0 \<le>s cachedSize (snd (Remove ex_tree_fs ''d/ok.txt'')) \<and>
   cachedSize (snd (RemoveAll ex_tree_fs ''d'')) = 42 \<and>
   0 \<le>s cachedSize (snd (RemoveAll ex_tree_fs ''d''))"
proof -
  note t = decrements_are_unchecked [THEN mp]
  have p1: "0 \<le>s cachedSize ex_file_fs \<and> (0 :: int64) \<le>s 1"
    and p50: "0 \<le>s cachedSize ex_file_fs \<and> (0 :: int64) \<le>s 50"
    and p5: "0 \<le>s cachedSize ex_tree_fs \<and> (0 :: int64) \<le>s 5"
    and p47: "0 \<le>s cachedSize ex_tree_fs \<and> (0 :: int64) \<le>s 47"
    by (simp_all add: ex_file_fs_def ex_tree_fs_def word_sle_eq)
  have t1: "fst (Truncate (newFileSize (mem_file ''f'')) 1 ex_file_fs) = None"
    and t50: "fst (Truncate (newFileSize (mem_file ''f'')) 50 ex_file_fs) = None"
    and r5: "fst (Remove ex_tree_fs ''d/ok.txt'') = None"
    and r47: "fst (RemoveAll ex_tree_fs ''d'') = None"
    and b5: "beforeRemove ex_tree_fs ''d/ok.txt'' = (5, None)"
    and b47: "beforeRemove ex_tree_fs ''d'' = (47, None)"
    by code_simp+
  have k: "cachedSize ex_file_fs = 45" "cachedSize ex_tree_fs = 89"
    by (simp_all add: ex_file_fs_def ex_tree_fs_def)
  have le: "(1 :: int64) \<le>s 45" "\<not> (50 :: int64) \<le>s 45" "(5 :: int64) \<le>s 89"
    "(47 :: int64) \<le>s 89"
    by (simp_all add: word_sle_eq)
  have e1: "Truncate (newFileSize (mem_file ''f'')) 1 ex_file_fs =
      (None, snd (Truncate (newFileSize (mem_file ''f'')) 1 ex_file_fs))"
    using t1 by (metis prod.collapse)
  have e50: "Truncate (newFileSize (mem_file ''f'')) 50 ex_file_fs =
      (None, snd (Truncate (newFileSize (mem_file ''f'')) 50 ex_file_fs))"
    using t50 by (metis prod.collapse)
  have e5: "beforeRemove ex_tree_fs ''d/ok.txt'' = (5, None) \<and>
      Remove ex_tree_fs ''d/ok.txt'' = (None, snd (Remove ex_tree_fs ''d/ok.txt''))"
    using r5 b5 by (metis prod.collapse)
  have e47: "beforeRemove ex_tree_fs ''d'' = (47, None) \<and>
      RemoveAll ex_tree_fs ''d'' = (None, snd (RemoveAll ex_tree_fs ''d''))"
    using r47 b47 by (metis prod.collapse)
  from t [OF p1, THEN conjunct1, THEN mp, OF e1]
    t [OF p50, THEN conjunct1, THEN mp, OF e50]
    t [OF p5, THEN conjunct2, THEN conjunct1, THEN mp, OF e5]
    t [OF p47, THEN conjunct2, THEN conjunct2, THEN mp, OF e47]
    k le
  show ?thesis by (simp add: word_sle_eq)
qed

text \<open>
  The claim as the specification states it fails: on the empty in-memory filesystem,
  creating a file and truncating it to 50 bytes both succeed, and the cached total goes
  from 42 to \<open>-8\<close>.
\<close>

theorem cached_total_goes_negative:
  "0 \<le>s cachedSize (fsys ex_session) \<and>
   fst (run ex_grow_ops ex_session) = None \<and>
   cachedSize (fsys (snd (run ex_grow_ops ex_session))) = - 8 \<and>
   cachedSize (fsys (snd (run ex_grow_ops ex_session))) <s 0"
  by code_simp

end
